theory Spec2Isabelle
  imports Complex_Main
begin

section \<open>JavaScript numbers\<close>

text \<open>
  The dashboard computes with JavaScript numbers. A finite number is modelled by the
  rational it denotes (arithmetic on finite numbers is exact: the rounding of binary
  floating point is not part of the model), and the three non-finite values that a
  division by zero produces are kept as values of their own. A zero is the positive
  zero: every zero that reaches a division here is the result of a sum that starts
  from \<open>0\<close> or of a subtraction of two finite numbers, and neither is \<open>-0\<close>.
\<close>

datatype jsnum = Num rat | PInf | NInf | NaN

fun js_neg :: "jsnum \<Rightarrow> jsnum" where
  "js_neg (Num a) = Num (- a)"
| "js_neg PInf = NInf"
| "js_neg NInf = PInf"
| "js_neg NaN = NaN"

fun js_add :: "jsnum \<Rightarrow> jsnum \<Rightarrow> jsnum" where
  "js_add NaN _ = NaN"
| "js_add _ NaN = NaN"
| "js_add (Num a) (Num b) = Num (a + b)"
| "js_add PInf NInf = NaN"
| "js_add NInf PInf = NaN"
| "js_add PInf _ = PInf"
| "js_add _ PInf = PInf"
| "js_add NInf _ = NInf"
| "js_add _ NInf = NInf"

definition js_sub :: "jsnum \<Rightarrow> jsnum \<Rightarrow> jsnum" where
  "js_sub a b = js_add a (js_neg b)"

fun js_mul :: "jsnum \<Rightarrow> jsnum \<Rightarrow> jsnum" where
  "js_mul NaN _ = NaN"
| "js_mul _ NaN = NaN"
| "js_mul (Num a) (Num b) = Num (a * b)"
| "js_mul (Num a) i = (if a = 0 then NaN else if 0 < a then i else js_neg i)"
| "js_mul i (Num b) = (if b = 0 then NaN else if 0 < b then i else js_neg i)"
| "js_mul PInf i = i"
| "js_mul NInf i = js_neg i"

fun js_div :: "jsnum \<Rightarrow> jsnum \<Rightarrow> jsnum" where
  "js_div NaN _ = NaN"
| "js_div _ NaN = NaN"
| "js_div (Num a) (Num b) =
     (if b = 0 then (if a = 0 then NaN else if 0 < a then PInf else NInf)
      else Num (a / b))"
| "js_div (Num a) _ = Num 0"
| "js_div i (Num b) = (if 0 \<le> b then i else js_neg i)"
| "js_div _ _ = NaN"

fun js_lt :: "jsnum \<Rightarrow> jsnum \<Rightarrow> bool" where
  "js_lt NaN _ = False"
| "js_lt _ NaN = False"
| "js_lt (Num a) (Num b) = (a < b)"
| "js_lt NInf NInf = False"
| "js_lt NInf _ = True"
| "js_lt PInf _ = False"
| "js_lt (Num a) PInf = True"
| "js_lt (Num a) NInf = False"

definition js_gt :: "jsnum \<Rightarrow> jsnum \<Rightarrow> bool" where
  "js_gt a b = js_lt b a"


text \<open>
  \<open>x.toFixed(1)\<close> yields a string; the model keeps the number that string denotes:
  the magnitude rounded to one decimal, a tie going away from zero, and
  \<open>"Infinity"\<close>, \<open>"-Infinity"\<close>, \<open>"NaN"\<close> for the non-finite values.
\<close>

fun toFixed1 :: "jsnum \<Rightarrow> jsnum" where
  "toFixed1 (Num a) = Num (sgn a * of_int \<lfloor>\<bar>a\<bar> * 10 + 1 / 2\<rfloor> / 10)"
| "toFixed1 i = i"

definition finite_num :: "jsnum \<Rightarrow> bool" where
  "finite_num v = (case v of Num _ \<Rightarrow> True | _ \<Rightarrow> False)"

text \<open>
  \<open>xs.slice(start, end)\<close>: a negative index counts from the end, and both indices
  are clipped to the array.
\<close>

definition js_slice :: "'a list \<Rightarrow> int \<Rightarrow> int \<Rightarrow> 'a list" where
  "js_slice xs start stop =
     (let len = int (length xs);
          k = (if start < 0 then max (len + start) 0 else min start len);
          e = (if stop < 0 then max (len + stop) 0 else min stop len)
      in take (nat (e - k)) (drop (nat k) xs))"

text \<open>\<open>xs.reduce((a, b) => a + b, 0)\<close>\<close>

definition js_sum :: "rat list \<Rightarrow> rat" where
  "js_sum xs = foldl (\<lambda>a b. a + b) 0 xs"

section \<open>Trend classification\<close>

datatype direction = Up | Down | Flat

record trend =
  direction :: direction
  change :: jsnum

text \<open>
  \<open>getTrend(data, periods = 3)\<close>. The argument is always an array, and it holds
  finite numbers. The mean of a window is the sum of the slice divided by \<open>periods\<close>,
  whatever the length of the slice.
\<close>

definition getTrend :: "rat list \<Rightarrow> nat \<Rightarrow> trend" where
  "getTrend data periods =
     (if length data < periods + 1 then \<lparr>direction = Flat, change = Num 0\<rparr>
      else
        let recent = js_div (Num (js_sum (js_slice data (- int periods) (int (length data)))))
                            (Num (of_nat periods));
            prior = js_div (Num (js_sum (js_slice data (- (int periods * 2)) (- int periods))))
                           (Num (of_nat periods));
            chg = js_mul (js_div (js_sub recent prior) prior) (Num 100)
        in \<lparr>direction = (if js_gt chg (Num 2) then Up
                         else if js_lt chg (Num (- 2)) then Down else Flat),
            change = toFixed1 chg\<rparr>)"

section \<open>Monthly series and aggregation\<close>

record utility =
  uid :: string
  short :: string
  utype :: string

definition utilities :: "utility list" where
  "utilities =
     [\<lparr>uid = ''pge'', short = ''PGE'', utype = ''Electric''\<rparr>,
      \<lparr>uid = ''pac'', short = ''PacifiCorp'', utype = ''Electric''\<rparr>,
      \<lparr>uid = ''ipco'', short = ''IPCO'', utype = ''Electric''\<rparr>,
      \<lparr>uid = ''nwn'', short = ''NWN'', utype = ''Gas''\<rparr>,
      \<lparr>uid = ''cng'', short = ''Cascade'', utype = ''Gas''\<rparr>,
      \<lparr>uid = ''avista'', short = ''Avista'', utype = ''Gas''\<rparr>]"

definition months :: "string list" where
  "months =
     [''Jan 24'', ''Feb 24'', ''Mar 24'', ''Apr 24'', ''May 24'', ''Jun 24'',
      ''Jul 24'', ''Aug 24'', ''Sep 24'', ''Oct 24'', ''Nov 24'', ''Dec 24'',
      ''Jan 25'', ''Feb 25'', ''Mar 25'', ''Apr 25'', ''May 25'', ''Jun 25'',
      ''Jul 25'', ''Aug 25'', ''Sep 25'']"

text \<open>A metric: utility id to its monthly array.\<close>

type_synonym metric_data = "string \<Rightarrow> rat list option"

definition disconnections :: metric_data where
  "disconnections = map_of
     [(''pge'', [761, 2216, 2403, 4521, 4044, 3269, 3087, 3300, 3428, 4180, 2541, 336, 365, 1376, 2610, 4600, 4753, 3138, 3871, 2088, 4081]),
      (''pac'', [3245, 2600, 2463, 3129, 2255, 2534, 1938, 2094, 2017, 2979, 1509, 850, 366, 478, 1295, 1554, 3916, 3190, 2627, 1874, 2833]),
      (''ipco'', [43, 69, 86, 55, 52, 46, 10, 57, 43, 71, 18, 12, 45, 36, 37, 72, 39, 58, 51, 47, 47]),
      (''nwn'', [590, 938, 633, 906, 1209, 869, 1058, 997, 56, 872, 646, 400, 462, 899, 1527, 1803, 999, 1426, 1594, 1023, 826]),
      (''cng'', [1, 3, 29, 62, 81, 47, 80, 98, 99, 33, 10, 5, 0, 0, 12, 92, 126, 54, 46, 26, 30]),
      (''avista'', [140, 135, 105, 187, 138, 140, 156, 100, 45, 79, 49, 72, 68, 107, 111, 114, 98, 63, 71, 47, 83])]"

definition accounts :: metric_data where
  "accounts = map_of
     [(''pge'', [822345, 824585, 825786, 826711, 828581, 829774, 830947, 832291, 831582, 833100, 834785, 835058, 835265, 837706, 838355, 839466, 839880, 840422, 840707, 841383, 841869]),
      (''pac'', [520138, 519816, 520585, 521119, 521566, 522229, 522499, 523443, 523236, 523493, 523212, 523152, 523938, 524477, 525758, 526185, 526977, 527535, 527778, 528166, 528315]),
      (''ipco'', [14641, 14603, 14639, 14649, 14704, 14656, 14681, 14684, 14698, 14711, 14683, 14716, 14700, 14686, 14695, 14690, 14742, 14764, 14765, 14808, 14812]),
      (''nwn'', [642904, 642992, 643112, 643915, 644027, 644368, 643678, 643683, 643502, 645109, 645848, 647425, 648145, 648230, 648494, 649069, 649069, 649110, 648638, 648421, 648036]),
      (''cng'', [73546, 73585, 73747, 73836, 73911, 73855, 73990, 73916, 73938, 74237, 74451, 74691, 74787, 74897, 75031, 75155, 75122, 75112, 75141, 75129, 75260]),
      (''avista'', [96285, 95323, 95334, 96344, 94870, 94982, 95090, 95019, 95055, 95226, 95547, 95669, 95727, 94361, 94525, 94450, 94325, 94206, 93140, 93110, 93103])]"



text \<open>
  \<open>obj[id]?.[idx] || 0\<close>: an absent utility and an index outside the array both read
  as \<open>undefined\<close>, which \<open>|| 0\<close> turns into \<open>0\<close> (as it does a stored \<open>0\<close>).
\<close>

definition valueAt :: "metric_data \<Rightarrow> string \<Rightarrow> int \<Rightarrow> rat" where
  "valueAt obj k idx =
     (case obj k of
        None \<Rightarrow> 0
      | Some xs \<Rightarrow> (if 0 \<le> idx \<and> idx < int (length xs) then xs ! nat idx else 0))"

definition sumArray :: "utility list \<Rightarrow> metric_data \<Rightarrow> int \<Rightarrow> rat" where
  "sumArray us obj idx = foldl (\<lambda>sum u. sum + valueAt obj (uid u) idx) 0 us"





text \<open>One row of \<open>getChartData\<close>: the value plotted for month \<open>i\<close>.\<close>

definition chartValue :: "utility list \<Rightarrow> metric_data \<Rightarrow> string \<Rightarrow> int \<Rightarrow> rat" where
  "chartValue us dataObj selectedUtility i =
     (if selectedUtility = ''all''
      then foldl (\<lambda>sum u. sum + valueAt dataObj (uid u) i) 0 us
      else valueAt dataObj selectedUtility i)"

definition getChartData :: "utility list \<Rightarrow> metric_data \<Rightarrow> string \<Rightarrow> (string \<times> rat) list" where
  "getChartData us dataObj selectedUtility =
     map (\<lambda>i. (months ! i, chartValue us dataObj selectedUtility (int i))) [0..<length months]"

section \<open>Geographic view\<close>

record snapshot =
  active :: rat
  arrears :: rat
  disc :: rat

text \<open>
  A ZIP-level record: the ZIP code, a point location, and the snapshots it carries,
  keyed by month (\<open>apr\<close>, \<open>may\<close>, \<open>jun\<close>).
\<close>

record geoRecord =
  zipCode :: string
  lat :: rat
  lng :: rat
  snaps :: "(string \<times> snapshot) list"

definition zipRecord ::
    "string \<Rightarrow> rat \<Rightarrow> rat \<Rightarrow> rat \<times> rat \<times> rat \<Rightarrow> rat \<times> rat \<times> rat \<Rightarrow> rat \<times> rat \<times> rat \<Rightarrow> geoRecord" where
  "zipRecord z la lg a m j =
     \<lparr>zipCode = z, lat = la, lng = lg,
      snaps = map (\<lambda>(k, (ac, ar, di)). (k, \<lparr>active = ac, arrears = ar, disc = di\<rparr>))
                  [(''apr'', a), (''may'', m), (''jun'', j)]\<rparr>"

definition geoZipData_pge :: "geoRecord list" where
  "geoZipData_pge =
     [zipRecord ''97003'' (45527 / 1000) (- 122887 / 1000) (11334, 1862, 69) (11323, 1821, 84) (11325, 1941, 68),
      zipRecord ''97005'' (45492 / 1000) (- 122791 / 1000) (12929, 2349, 110) (12918, 2642, 116) (12921, 2626, 69),
      zipRecord ''97006'' (45532 / 1000) (- 122849 / 1000) (19823, 3084, 96) (20014, 2912, 145) (20011, 2963, 76),
      zipRecord ''97007'' (4547 / 100) (- 122846 / 1000) (19861, 1923, 62) (19886, 1955, 56) (19906, 1993, 50),
      zipRecord ''97008'' (45457 / 1000) (- 122789 / 1000) (11967, 1850, 73) (11968, 1813, 86) (11966, 1860, 50),
      zipRecord ''97015'' (45403 / 1000) (- 122549 / 1000) (9307, 1538, 61) (9307, 1563, 82) (9302, 1611, 43),
      zipRecord ''97030'' (45506 / 1000) (- 122437 / 1000) (15700, 3428, 168) (15696, 3363, 166) (15701, 3522, 123),
      zipRecord ''97045'' (45358 / 1000) (- 122579 / 1000) (22990, 2950, 108) (22985, 3071, 113) (22992, 2679, 88),
      zipRecord ''97080'' (45496 / 1000) (- 122427 / 1000) (17047, 2484, 79) (17074, 2579, 107) (17099, 2585, 75),
      zipRecord ''97086'' (45448 / 1000) (- 12252 / 100) (13969, 2142, 90) (13965, 2054, 87) (13998, 2133, 70),
      zipRecord ''97123'' (45462 / 1000) (- 122975 / 1000) (19636, 2101, 110) (19682, 1922, 115) (19704, 2082, 68),
      zipRecord ''97124'' (45535 / 1000) (- 122957 / 1000) (21879, 2520, 114) (21876, 2492, 119) (21879, 2592, 70),
      zipRecord ''97202'' (45483 / 1000) (- 122641 / 1000) (20912, 3038, 74) (20914, 2891, 93) (20916, 2955, 58),
      zipRecord ''97206'' (45474 / 1000) (- 1226 / 10) (22587, 3284, 79) (22577, 3280, 99) (22584, 3422, 59),
      zipRecord ''97209'' (45535 / 1000) (- 122685 / 1000) (16511, 3774, 117) (16514, 3758, 89) (16501, 3869, 54),
      zipRecord ''97222'' (45442 / 1000) (- 12262 / 100) (16093, 2890, 107) (16102, 2831, 100) (16117, 2381, 57),
      zipRecord ''97223'' (45441 / 1000) (- 122782 / 1000) (21762, 3201, 108) (21753, 3203, 123) (21743, 3322, 97),
      zipRecord ''97229'' (45558 / 1000) (- 122819 / 1000) (28913, 2634, 102) (28932, 2627, 85) (28952, 2311, 60),
      zipRecord ''97230'' (4556 / 100) (- 1225 / 10) (15846, 2821, 165) (15862, 2613, 136) (15844, 2785, 78),
      zipRecord ''97233'' (45517 / 1000) (- 1225 / 10) (15703, 4343, 229) (15697, 4228, 233) (15684, 4428, 164),
      zipRecord ''97236'' (45482 / 1000) (- 12251 / 100) (14294, 3208, 183) (14272, 3061, 148) (14289, 3192, 116),
      zipRecord ''97266'' (45482 / 1000) (- 122557 / 1000) (13597, 2858, 96) (13602, 2919, 102) (13607, 3045, 99),
      zipRecord ''97301'' (44932 / 1000) (- 122999 / 1000) (20152, 4868, 227) (20175, 4753, 242) (20315, 4846, 158),
      zipRecord ''97302'' (44908 / 1000) (- 123034 / 1000) (17894, 2264, 114) (17888, 2142, 109) (17891, 2225, 52),
      zipRecord ''97305'' (44978 / 1000) (- 122948 / 1000) (16305, 3903, 163) (16301, 3685, 200) (16308, 3893, 119)]"

definition geoZipData_nwn :: "geoRecord list" where
  "geoZipData_nwn =
     [zipRecord ''97003'' (45527 / 1000) (- 122887 / 1000) (7027, 665, 29) (7032, 709, 0) (7039, 689, 32),
      zipRecord ''97006'' (45532 / 1000) (- 122849 / 1000) (9418, 703, 26) (9385, 722, 12) (9424, 713, 21),
      zipRecord ''97007'' (4547 / 100) (- 122846 / 1000) (14541, 698, 25) (14539, 767, 15) (14554, 758, 40),
      zipRecord ''97045'' (45358 / 1000) (- 122579 / 1000) (11607, 1074, 21) (11585, 1092, 8) (11593, 1041, 41),
      zipRecord ''97080'' (45496 / 1000) (- 122427 / 1000) (11607, 1161, 43) (4411, 1225, 0) (11647, 854, 33),
      zipRecord ''97086'' (45448 / 1000) (- 12252 / 100) (9643, 859, 19) (9566, 841, 18) (9640, 803, 16),
      zipRecord ''97123'' (45462 / 1000) (- 122975 / 1000) (12736, 623, 31) (12742, 1360, 49) (12763, 932, 21),
      zipRecord ''97124'' (45535 / 1000) (- 122957 / 1000) (10799, 428, 41) (10802, 658, 27) (10812, 645, 20),
      zipRecord ''97202'' (45483 / 1000) (- 122641 / 1000) (11785, 893, 31) (5220, 989, 0) (11774, 730, 9),
      zipRecord ''97206'' (45474 / 1000) (- 1226 / 10) (14103, 1339, 41) (2655, 1459, 0) (14042, 941, 6),
      zipRecord ''97211'' (45576 / 1000) (- 122638 / 1000) (10561, 760, 49) (10560, 971, 28) (10544, 850, 17),
      zipRecord ''97217'' (45591 / 1000) (- 122693 / 1000) (10683, 962, 33) (10674, 1129, 31) (10665, 1020, 39),
      zipRecord ''97222'' (45442 / 1000) (- 12262 / 100) (8165, 856, 28) (7762, 871, 5) (8133, 838, 5),
      zipRecord ''97223'' (45441 / 1000) (- 122782 / 1000) (13106, 820, 22) (13085, 849, 5) (13124, 809, 34),
      zipRecord ''97229'' (45558 / 1000) (- 122819 / 1000) (21977, 1250, 44) (21986, 1292, 26) (22031, 1286, 31),
      zipRecord ''97230'' (4556 / 100) (- 1225 / 10) (9478, 1103, 30) (8478, 1152, 2) (9467, 992, 25),
      zipRecord ''97301'' (44932 / 1000) (- 122999 / 1000) (8990, 997, 61) (8975, 1102, 57) (8983, 1275, 24),
      zipRecord ''97302'' (44908 / 1000) (- 123034 / 1000) (10458, 680, 33) (10426, 733, 2) (10451, 702, 28),
      zipRecord ''97305'' (44978 / 1000) (- 122948 / 1000) (7063, 665, 38) (7038, 695, 24) (7046, 674, 46)]"

definition geoZipData_avista :: "geoRecord list" where
  "geoZipData_avista =
     [zipRecord ''97470'' (4322 / 100) (- 12335 / 100) (3328, 527, 4) (3323, 550, 3) (3320, 570, 2),
      zipRecord ''97471'' (4328 / 100) (- 12338 / 100) (5195, 430, 6) (5190, 579, 5) (5180, 565, 3),
      zipRecord ''97502'' (423 / 10) (- 12292 / 100) (9199, 1116, 11) (9162, 1401, 10) (9144, 1357, 6),
      zipRecord ''97503'' (4238 / 100) (- 12283 / 100) (6404, 697, 8) (6406, 717, 7) (6401, 689, 4),
      zipRecord ''97520'' (422 / 10) (- 1227 / 10) (13106, 997, 16) (13097, 1122, 14) (13115, 1141, 9),
      zipRecord ''97524'' (4245 / 100) (- 12285 / 100) (7039, 442, 8) (7050, 468, 7) (7057, 486, 5),
      zipRecord ''97527'' (4242 / 100) (- 12333 / 100) (6332, 771, 8) (6328, 804, 7) (6313, 796, 4),
      zipRecord ''97530'' (4212 / 100) (- 1229 / 10) (5544, 537, 7) (5535, 539, 6) (5515, 534, 4),
      zipRecord ''97601'' (4222 / 100) (- 12175 / 100) (6433, 803, 8) (6407, 783, 7) (6362, 857, 4),
      zipRecord ''97603'' (4218 / 100) (- 12172 / 100) (8852, 990, 11) (8816, 1016, 9) (8801, 986, 6),
      zipRecord ''97850'' (4533 / 100) (- 11808 / 100) (4853, 314, 6) (4857, 317, 5) (4851, 334, 3)]"

definition geoZipData_cng :: "geoRecord list" where
  "geoZipData_cng =
     [zipRecord ''97701'' (4406 / 100) (- 12131 / 100) (10842, 576, 2) (10821, 621, 14) (10857, 625, 1),
      zipRecord ''97702'' (4399 / 100) (- 12135 / 100) (14441, 801, 8) (14446, 844, 18) (14458, 798, 3),
      zipRecord ''97703'' (4412 / 100) (- 12129 / 100) (10056, 459, 5) (10056, 446, 3) (10048, 442, 2),
      zipRecord ''97707'' (4388 / 100) (- 1215 / 10) (3976, 82, 1) (3983, 101, 0) (3987, 110, 1),
      zipRecord ''97741'' (4459 / 100) (- 12113 / 100) (1598, 171, 3) (1599, 176, 6) (1592, 158, 0),
      zipRecord ''97754'' (4427 / 100) (- 1209 / 10) (2989, 356, 2) (3004, 367, 3) (2996, 352, 7),
      zipRecord ''97756'' (4427 / 100) (- 12117 / 100) (9870, 524, 5) (9879, 540, 11) (9896, 535, 2),
      zipRecord ''97801'' (4567 / 100) (- 11878 / 100) (4896, 524, 17) (4883, 521, 23) (4859, 536, 9),
      zipRecord ''97814'' (4478 / 100) (- 11783 / 100) (3511, 341, 5) (3509, 354, 6) (3494, 314, 6),
      zipRecord ''97838'' (4583 / 100) (- 11917 / 100) (4271, 477, 8) (4262, 506, 12) (4261, 522, 4),
      zipRecord ''97914'' (4405 / 100) (- 11697 / 100) (2778, 334, 16) (2763, 324, 11) (2746, 317, 11)]"

definition geoZipData_pac :: "geoRecord list" where
  "geoZipData_pac =
     [zipRecord ''97756'' (4427 / 100) (- 12117 / 100) (14291, 2764, 31) (14300, 2794, 82) (14313, 2690, 57),
      zipRecord ''97471'' (4328 / 100) (- 12338 / 100) (10913, 1963, 24) (10899, 2645, 45) (10900, 1960, 74),
      zipRecord ''97211'' (45576 / 1000) (- 122638 / 1000) (15281, 2477, 34) (15342, 2547, 80) (15348, 2348, 48),
      zipRecord ''97351'' (4487 / 100) (- 12302 / 100) (4098, 1008, 17) (4113, 1122, 37) (4102, 1037, 22),
      zipRecord ''97701'' (4406 / 100) (- 12131 / 100) (14440, 2592, 21) (14497, 2508, 61) (14518, 2446, 26),
      zipRecord ''97520'' (422 / 10) (- 1227 / 10) (2030, 350, 2) (2032, 346, 8) (2040, 330, 4),
      zipRecord ''97527'' (4242 / 100) (- 12333 / 100) (16394, 3526, 48) (16375, 3445, 134) (16399, 3175, 68),
      zipRecord ''97530'' (4212 / 100) (- 1229 / 10) (4056, 706, 4) (4044, 684, 31) (4043, 675, 10),
      zipRecord ''97525'' (4243 / 100) ((- 123)) (2542, 631, 9) (2549, 597, 17) (2543, 578, 14),
      zipRecord ''97212'' (45546 / 1000) (- 122643 / 1000) (11954, 1682, 17) (11978, 1704, 56) (11991, 1619, 32),
      zipRecord ''97504'' (4235 / 100) (- 12285 / 100) (21326, 3898, 70) (21335, 5239, 108) (21359, 3808, 213),
      zipRecord ''97470'' (4322 / 100) (- 12335 / 100) (9661, 2539, 30) (9652, 2453, 124) (9641, 2369, 43),
      zipRecord ''97138'' (46) (- 12392 / 100) (7030, 1254, 28) (7025, 1252, 42) (7032, 1254, 23),
      zipRecord ''97601'' (4222 / 100) (- 12175 / 100) (11714, 2576, 67) (11703, 2785, 69) (11720, 2538, 151),
      zipRecord ''97540'' (4212 / 100) (- 12282 / 100) (3785, 683, 8) (3818, 672, 39) (3800, 659, 7),
      zipRecord ''97031'' (4568 / 100) (- 12152 / 100) (6684, 904, 12) (6687, 927, 18) (6675, 854, 20),
      zipRecord ''97217'' (45591 / 1000) (- 122693 / 1000) (5907, 1068, 15) (5921, 1107, 35) (5965, 1002, 41),
      zipRecord ''97338'' (4497 / 100) (- 12335 / 100) (9557, 1986, 11) (9574, 1991, 40) (9537, 1827, 30),
      zipRecord ''97367'' (4488 / 100) (- 12402 / 100) (7553, 1296, 19) (7578, 1291, 45) (7566, 1243, 23),
      zipRecord ''97524'' (4245 / 100) (- 12285 / 100) (6983, 1664, 31) (6999, 1584, 82) (7016, 1504, 23),
      zipRecord ''97501'' (4233 / 100) (- 12287 / 100) (19469, 4844, 90) (19520, 4640, 178) (19540, 4340, 201),
      zipRecord ''97703'' (4412 / 100) (- 12129 / 100) (14183, 1178, 11) (14206, 1486, 24) (14247, 1186, 18),
      zipRecord ''97321'' (4465 / 100) (- 12307 / 100) (12830, 2183, 24) (12834, 2274, 57) (12879, 1930, 75),
      zipRecord ''97333'' (4455 / 100) (- 12325 / 100) (9981, 1636, 23) (10042, 1731, 61) (10139, 1630, 35),
      zipRecord ''97702'' (4399 / 100) (- 12135 / 100) (20298, 2867, 26) (20390, 2853, 89) (20424, 2693, 70),
      zipRecord ''97330'' (4458 / 100) (- 12327 / 100) (14260, 1892, 23) (14290, 2008, 35) (14531, 1811, 56),
      zipRecord ''97754'' (4427 / 100) (- 1209 / 10) (7879, 1724, 30) (7879, 1793, 51) (7878, 1679, 55),
      zipRecord ''97526'' (4245 / 100) (- 12332 / 100) (16814, 3630, 40) (16806, 3852, 62) (16870, 3286, 158),
      zipRecord ''97801'' (4567 / 100) (- 11878 / 100) (8943, 2282, 30) (8962, 2184, 93) (8956, 2094, 48),
      zipRecord ''97503'' (4238 / 100) (- 12283 / 100) (4668, 1469, 15) (4689, 1404, 68) (4686, 1299, 29),
      zipRecord ''97322'' (4463 / 100) (- 1231 / 10) (14414, 3771, 35) (14445, 3675, 129) (14433, 3389, 58),
      zipRecord ''97502'' (423 / 10) (- 12292 / 100) (12616, 2597, 31) (12609, 2456, 81) (12626, 2326, 99),
      zipRecord ''97603'' (4218 / 100) (- 12172 / 100) (14095, 3479, 67) (14100, 3426, 122) (14087, 3297, 110),
      zipRecord ''97103'' (4618 / 100) (- 12383 / 100) (8590, 1417, 11) (8609, 1611, 33) (8619, 1461, 41),
      zipRecord ''97213'' (45538 / 1000) (- 1226 / 10) (11324, 1462, 13) (11400, 1759, 42) (11384, 1542, 25)]"

definition geoZipData_ipco :: "geoRecord list" where
  "geoZipData_ipco =
     [zipRecord ''97834'' (4498 / 100) (- 11717 / 100) (661, 34, 0) (660, 48, 0) (661, 36, 0),
      zipRecord ''97870'' (4477 / 100) (- 11718 / 100) (434, 23, 0) (436, 32, 0) (437, 31, 1),
      zipRecord ''97901'' (4388 / 100) (- 11703 / 100) (377, 36, 0) (379, 36, 1) (377, 40, 1),
      zipRecord ''97907'' (4415 / 100) (- 11742 / 100) (378, 43, 1) (382, 51, 0) (383, 42, 2),
      zipRecord ''97910'' (4312 / 100) (- 11702 / 100) (368, 30, 1) (382, 34, 1) (382, 27, 0),
      zipRecord ''97913'' (4402 / 100) (- 11697 / 100) (2274, 388, 10) (2294, 366, 6) (2289, 356, 7),
      zipRecord ''97914'' (4405 / 100) (- 11697 / 100) (7106, 1223, 41) (7117, 1171, 22) (7132, 1110, 35),
      zipRecord ''97918'' (4397 / 100) (- 11725 / 100) (1993, 270, 18) (1996, 238, 9) (2003, 241, 10)]"

definition geoZipData :: "string \<Rightarrow> geoRecord list option" where
  "geoZipData = map_of
     [(''pge'', geoZipData_pge), (''nwn'', geoZipData_nwn), (''avista'', geoZipData_avista),
      (''cng'', geoZipData_cng), (''pac'', geoZipData_pac), (''ipco'', geoZipData_ipco)]"

record region =
  latMin :: rat
  latMax :: rat
  lngMin :: rat
  lngMax :: rat

definition geoRegions :: "(string \<times> region) list" where
  "geoRegions =
     [(''statewide'', \<lparr>latMin = 4195 / 100, latMax = 4630 / 100, lngMin = - 12460 / 100, lngMax = - 11645 / 100\<rparr>),
      (''portland'', \<lparr>latMin = 4530 / 100, latMax = 4575 / 100, lngMin = - 12315 / 100, lngMax = - 12225 / 100\<rparr>),
      (''salem'', \<lparr>latMin = 4410 / 100, latMax = 4530 / 100, lngMin = - 12385 / 100, lngMax = - 12235 / 100\<rparr>),
      (''southern'', \<lparr>latMin = 4195 / 100, latMax = 4370 / 100, lngMin = - 12420 / 100, lngMax = - 12080 / 100\<rparr>),
      (''central'', \<lparr>latMin = 4340 / 100, latMax = 4500 / 100, lngMin = - 12210 / 100, lngMax = - 11970 / 100\<rparr>),
      (''coast'', \<lparr>latMin = 4410 / 100, latMax = 4630 / 100, lngMin = - 12425 / 100, lngMax = - 12330 / 100\<rparr>),
      (''eastern'', \<lparr>latMin = 4195 / 100, latMax = 4605 / 100, lngMin = - 12010 / 100, lngMax = - 11685 / 100\<rparr>)]"

definition mapWidth :: rat where
  "mapWidth = 850"

definition mapHeight :: rat where
  "mapHeight = 520"

text \<open>The two scales divide by the extent of the bounding box without a check.\<close>

definition xScale :: "region \<Rightarrow> rat \<Rightarrow> jsnum" where
  "xScale bounds lg =
     js_add (js_mul (js_div (Num (lg - lngMin bounds)) (Num (lngMax bounds - lngMin bounds)))
                    (Num (mapWidth - 60)))
            (Num 30)"

definition yScale :: "region \<Rightarrow> rat \<Rightarrow> jsnum" where
  "yScale bounds la =
     js_sub (Num (mapHeight - 30))
            (js_mul (js_div (Num (la - latMin bounds)) (Num (latMax bounds - latMin bounds)))
                    (Num (mapHeight - 60)))"

definition getGeoMetricValue :: "geoRecord \<Rightarrow> string \<Rightarrow> string \<Rightarrow> rat" where
  "getGeoMetricValue data month metric =
     (case map_of (snaps data) month of
        None \<Rightarrow> 0
      | Some d \<Rightarrow>
          if active d = 0 then 0
          else if metric = ''arrears_rate''
            then (if 0 < active d then arrears d / active d * 100 else 0)
          else if metric = ''disc_rate''
            then (if 0 < active d then disc d / active d * 100 else 0)
          else if metric = ''arrears_count'' then arrears d
          else if metric = ''disconnections'' then disc d
          else 0)"

text \<open>An element of \<open>allGeoData\<close>: the record, the utility it came from, its metric value.\<close>

record geoPoint =
  rec :: geoRecord
  utility :: string
  "value" :: rat

text \<open>An element of \<open>filteredGeoData\<close>: the same with its pixel coordinates.\<close>

record projPoint =
  point :: geoPoint
  x :: jsnum
  y :: jsnum

definition utilKeys :: "string \<Rightarrow> string list" where
  "utilKeys geoUtility =
     (if geoUtility = ''all'' then [''pge'', ''nwn'', ''avista'', ''cng'', ''pac'', ''ipco'']
      else [geoUtility])"

text \<open>\<open>d[geoMonth]?.active > 20\<close>: false when the record has no snapshot for the month.\<close>

definition activeOver20 :: "string \<Rightarrow> geoRecord \<Rightarrow> bool" where
  "activeOver20 geoMonth d =
     (case map_of (snaps d) geoMonth of None \<Rightarrow> False | Some s \<Rightarrow> 20 < active s)"

text \<open>The two nested \<open>forEach\<close> loops that push onto \<open>allGeoData\<close>, in their order.\<close>

definition collectGeoData ::
    "(string \<Rightarrow> geoRecord list option) \<Rightarrow> string \<Rightarrow> string \<Rightarrow> string \<Rightarrow> geoPoint list" where
  "collectGeoData zipData geoUtility geoMonth geoMetric =
     concat (map (\<lambda>uk. case zipData uk of
                          None \<Rightarrow> []
                        | Some ds \<Rightarrow>
                            map (\<lambda>d. \<lparr>rec = d, utility = uk,
                                      value = getGeoMetricValue d geoMonth geoMetric\<rparr>)
                                (filter (activeOver20 geoMonth) ds))
                 (utilKeys geoUtility))"

text \<open>
  \<open>allGeoData.sort((a, b) => b.value - a.value)\<close>: \<open>Array.prototype.sort\<close> is stable,
  and the comparator orders by value alone, the larger first.
\<close>

definition allGeoData ::
    "(string \<Rightarrow> geoRecord list option) \<Rightarrow> string \<Rightarrow> string \<Rightarrow> string \<Rightarrow> geoPoint list" where
  "allGeoData zipData geoUtility geoMonth geoMetric =
     sort_key (\<lambda>p. - value p) (collectGeoData zipData geoUtility geoMonth geoMetric)"

definition inBounds :: "region \<Rightarrow> geoPoint \<Rightarrow> bool" where
  "inBounds bounds d =
     (latMin bounds \<le> lat (rec d) \<and> lat (rec d) \<le> latMax bounds \<and>
      lngMin bounds \<le> lng (rec d) \<and> lng (rec d) \<le> lngMax bounds)"

definition filteredGeoData :: "region \<Rightarrow> geoPoint list \<Rightarrow> projPoint list" where
  "filteredGeoData bounds allData =
     map (\<lambda>d. \<lparr>point = d, x = xScale bounds (lng (rec d)), y = yScale bounds (lat (rec d))\<rparr>)
         (filter (inBounds bounds) allData)"

definition geoValues :: "geoPoint list \<Rightarrow> rat list" where
  "geoValues allData = filter (\<lambda>v. 0 < v) (map value allData)"

definition geoMinVal :: "rat list \<Rightarrow> rat" where
  "geoMinVal vs = (case vs of [] \<Rightarrow> 0 | v # rest \<Rightarrow> fold min rest v)"

definition geoMaxVal :: "rat list \<Rightarrow> rat" where
  "geoMaxVal vs = (case vs of [] \<Rightarrow> 1 | v # rest \<Rightarrow> fold max rest v)"

text \<open>The local \<open>t\<close> of \<open>getGeoColor\<close>, for the range in force.\<close>

definition geoT :: "rat \<Rightarrow> rat \<Rightarrow> rat \<Rightarrow> rat" where
  "geoT minVal maxVal v = (if minVal < maxVal then (v - minVal) / (maxVal - minVal) else 0)"

text \<open>\<open>getGeoColor\<close>: hue and saturation of the utility, lightness from \<open>t\<close>.\<close>

definition getGeoColor :: "rat \<Rightarrow> rat \<Rightarrow> rat \<Rightarrow> string \<Rightarrow> nat \<times> nat \<times> rat" where
  "getGeoColor minVal maxVal v util =
     (let t = geoT minVal maxVal v;
          l = 82 - t * 42
      in if util = ''pge'' then (142, 65, l)
         else if util = ''nwn'' then (217, 80, l)
         else if util = ''avista'' then (25, 85, l)
         else if util = ''cng'' then (271, 70, l)
         else if util = ''ipco'' then (188, 85, l)
         else (0, 70, l))"

text \<open>The selections of the geographic tab, and what one render computes from them.\<close>

record geoState =
  geoMonth :: string
  geoMetric :: string
  geoUtility :: string
  geoRegion :: string

record geoView =
  viewAll :: "geoPoint list"
  viewFiltered :: "projPoint list"
  viewMin :: rat
  viewMax :: rat
  viewRanking :: "geoPoint list"

text \<open>
  The render of the geographic tab. A region key that is not in the catalogue makes the
  destructuring of \<open>bounds\<close> throw: \<open>None\<close>. The ranking is the first fifty elements
  (\<open>slice(0, 50)\<close>, a fresh array) of \<open>allGeoData\<close> statewide and of
  \<open>filteredGeoData\<close> otherwise.
\<close>

definition geographicView ::
    "(string \<Rightarrow> geoRecord list option) \<Rightarrow> geoState \<Rightarrow> geoView option" where
  "geographicView zipData st =
     (case map_of geoRegions (geoRegion st) of
        None \<Rightarrow> None
      | Some bounds \<Rightarrow>
          let allData = allGeoData zipData (geoUtility st) (geoMonth st) (geoMetric st);
              filtered = filteredGeoData bounds allData;
              vals = geoValues allData;
              isStatewide = (geoRegion st = ''statewide'')
          in Some \<lparr>viewAll = allData, viewFiltered = filtered,
                   viewMin = geoMinVal vals, viewMax = geoMaxVal vals,
                   viewRanking = take 50 (if isStatewide then allData else map point filtered)\<rparr>)"

section \<open>Notions of the specification\<close>

text \<open>
  The two windows the trend compares, for a series of at least six months: the mean of
  the last three values and the mean of the three values before them.
\<close>

definition currentMean :: "rat list \<Rightarrow> rat" where
  "currentMean xs = sum_list (drop (length xs - 3) xs) / 3"

definition priorMean :: "rat list \<Rightarrow> rat" where
  "priorMean xs = sum_list (take 3 (drop (length xs - 6) xs)) / 3"

text \<open>
  The order the specification asks of the ranking: the larger value first, and of two
  equal values the ZIP code that is lexically smaller first.
\<close>

fun lexLeq :: "string \<Rightarrow> string \<Rightarrow> bool" where
  "lexLeq [] _ = True"
| "lexLeq (c # cs) [] = False"
| "lexLeq (c # cs) (d # ds) = ((of_char c :: nat) < of_char d \<or> (c = d \<and> lexLeq cs ds))"

definition rankedBefore :: "geoPoint \<Rightarrow> geoPoint \<Rightarrow> bool" where
  "rankedBefore a b =
     (value b < value a \<or> (value a = value b \<and> lexLeq (zipCode (rec a)) (zipCode (rec b))))"

text \<open>
  The population the specification takes the colour range over: the positive values of
  the points that are visible, that is, of the points left by the region filter.
\<close>

definition visibleValues :: "geoView \<Rightarrow> rat list" where
  "visibleValues v = filter (\<lambda>q. 0 < q) (map (\<lambda>p. value (point p)) (viewFiltered v))"

section \<open>Properties of the aggregation\<close>

lemma foldl_add_sum_list:
  "foldl (\<lambda>s u. s + f u) a us = (a::rat) + sum_list (map f us)"
  by (induction us arbitrary: a) (simp_all add: add.assoc)

lemma js_sum_sum_list: "js_sum xs = sum_list xs"
  using foldl_add_sum_list [of "\<lambda>b. b" 0 xs] by (simp add: js_sum_def)






section \<open>Properties of the trend classifier\<close>

lemma floor_numeral_div:
  "\<lfloor>(numeral a :: rat) / numeral b\<rfloor> = numeral a div numeral b"
  using floor_divide_of_int_eq [of "numeral a" "numeral b", where ?'a = rat] by simp

lemma slice_recent:
  "3 \<le> length xs \<Longrightarrow> js_slice xs (- 3) (int (length xs)) = drop (length xs - 3) xs"
  by (simp add: js_slice_def Let_def max_def nat_diff_distrib')

lemma slice_prior:
  "6 \<le> length xs \<Longrightarrow> js_slice xs (- 6) (- 3) = take 3 (drop (length xs - 6) xs)"
  by (simp add: js_slice_def Let_def max_def nat_diff_distrib')

text \<open>A series shorter than four months is flat with change \<open>0\<close>.\<close>

lemma getTrend_short:
  "length xs < 4 \<Longrightarrow> getTrend xs 3 = \<lparr>direction = Flat, change = Num 0\<rparr>"
  by (simp add: getTrend_def)

text \<open>
  With six months or more and a prior mean that is not zero, the change is
  \<open>(currentMean - priorMean) / priorMean \<times> 100\<close>, classified at \<open>\<plusminus>2\<close>.
\<close>

lemma getTrend_six:
  assumes len: "6 \<le> length xs" and nz: "priorMean xs \<noteq> 0"
  shows "let c = (currentMean xs - priorMean xs) / priorMean xs * 100
         in getTrend xs 3 =
              \<lparr>direction = (if 2 < c then Up else if c < - 2 then Down else Flat),
               change = toFixed1 (Num c)\<rparr>"
proof -
  have r: "js_slice xs (- 3) (int (length xs)) = drop (length xs - 3) xs"
    using len by (simp add: slice_recent)
  have p: "js_slice xs (- 6) (- 3) = take 3 (drop (length xs - 6) xs)"
    using len by (simp add: slice_prior)
  have nz': "sum_list (take 3 (drop (length xs - 6) xs)) \<noteq> 0"
    using nz by (simp add: priorMean_def)
  show ?thesis
    using len nz nz'
    by (simp add: getTrend_def Let_def r p js_sum_sum_list js_sub_def js_gt_def
        currentMean_def priorMean_def)
qed

lemma getTrend_six_example:
  "getTrend [100, 100, 100, 100, 100, 100, 130, 130, 130] 3 = \<lparr>direction = Up, change = Num 30\<rparr>"
  by (simp add: getTrend_def js_slice_def js_sum_def js_sub_def js_gt_def Let_def
      floor_numeral_div)

text \<open>
  With a prior mean of zero the division is carried out: the change is infinite, or
  \<open>NaN\<close> when the current mean is zero too.
\<close>

lemma getTrend_prior_zero:
  assumes len: "6 \<le> length xs" and z: "priorMean xs = 0"
  shows "getTrend xs 3 =
           (if 0 < currentMean xs then \<lparr>direction = Up, change = PInf\<rparr>
            else if currentMean xs < 0 then \<lparr>direction = Down, change = NInf\<rparr>
            else \<lparr>direction = Flat, change = NaN\<rparr>)"
proof -
  have r: "js_slice xs (- 3) (int (length xs)) = drop (length xs - 3) xs"
    using len by (simp add: slice_recent)
  have p: "js_slice xs (- 6) (- 3) = take 3 (drop (length xs - 6) xs)"
    using len by (simp add: slice_prior)
  have z': "sum_list (take 3 (drop (length xs - 6) xs)) = 0"
    using z by (simp add: priorMean_def)
  show ?thesis
    using len z'
    by (simp add: getTrend_def Let_def r p js_sum_sum_list js_sub_def js_gt_def
        currentMean_def)
qed

text \<open>
  Claim C2, at a series whose prior three months are zero: the prior mean is \<open>0\<close>, and
  the classifier answers \<open>up\<close> with the change \<open>Infinity\<close>, where the claim has
  \<open>flat\<close> and \<open>0\<close>.
\<close>

theorem getTrend_zero_prior_mean:
  "priorMean [0, 0, 0, 5, 5, 5] = 0 \<and>
   getTrend [0, 0, 0, 5, 5, 5] 3 = \<lparr>direction = Up, change = PInf\<rparr> \<and>
   getTrend [0, 0, 0, 0, 0, 0] 3 = \<lparr>direction = Flat, change = NaN\<rparr>"
  by (simp add: priorMean_def getTrend_def js_slice_def js_sum_def js_sub_def js_gt_def Let_def)

text \<open>
  Claim C3, at a series of four months: the guard lets it through, the prior window is
  the single first value, still divided by three, and the classifier answers \<open>up\<close> with
  a change of 200 per cent, where the claim has \<open>flat\<close> and \<open>0\<close>.
\<close>

theorem getTrend_four_months:
  "getTrend [100, 100, 100, 100] 3 = \<lparr>direction = Up, change = Num 200\<rparr>"
  by (simp add: getTrend_def js_slice_def js_sum_def js_sub_def js_gt_def Let_def
      floor_numeral_div)

section \<open>Month indices outside the series\<close>

lemma valueAt_outside:
  assumes "\<forall>k xs. obj k = Some xs \<longrightarrow> length xs = 21" and "idx < 0 \<or> 21 \<le> idx"
  shows "valueAt obj k idx = 0"
  using assms by (auto simp: valueAt_def split: option.splits)

text \<open>The chart itself asks for the 21 indices of \<open>months\<close> only.\<close>

lemma getChartData_indices:
  "getChartData us obj sel = map (\<lambda>i. (months ! i, chartValue us obj sel (int i))) [0..<21]"
proof -
  have "length months = 21"
    by (simp add: months_def)
  then show ?thesis
    by (simp only: getChartData_def)
qed

text \<open>
  Claim C9, at the month index 21 on the disconnection series: the sum over the
  utilities and the chart value of one utility are both the number \<open>0\<close>.
\<close>

theorem out_of_range_index_counterexample:
  "sumArray utilities disconnections 21 = 0 \<and>
   chartValue utilities disconnections ''pge'' 21 = 0 \<and>
   chartValue utilities disconnections ''all'' 21 = 0"
  by (simp add: sumArray_def chartValue_def valueAt_def disconnections_def utilities_def)

text \<open>
  Claim C9 as amended. When every series of the metric has 21 months, a month index
  outside \<open>[0, 21)\<close> reads as \<open>0\<close>: the sum over the utilities is \<open>0\<close> and so is the
  chart value, for all utilities and for a single one.
\<close>

theorem out_of_range_index_is_zero:
  assumes "\<forall>k xs. obj k = Some xs \<longrightarrow> length xs = 21" and "idx < 0 \<or> 21 \<le> idx"
  shows "sumArray us obj idx = 0 \<and> chartValue us obj sel idx = 0"
  unfolding sumArray_def chartValue_def foldl_add_sum_list
  by (simp add: valueAt_outside [OF assms])

theorem out_of_range_index_is_zero_witness:
  "((- 1 :: int) < 0 \<or> (21 :: int) \<le> - 1) \<and>
   sumArray utilities accounts (- 1) = 0 \<and> chartValue utilities accounts ''cng'' (- 1) = 0"
proof -
  have h: "\<forall>k xs. accounts k = Some xs \<longrightarrow> length xs = 21"
    by (auto simp: accounts_def split: if_splits)
  have i: "(- 1 :: int) < 0 \<or> (21 :: int) \<le> - 1"
    by simp
  show ?thesis
    using out_of_range_index_is_zero [OF h i, of utilities "''cng''"] by simp
qed

section \<open>Properties of the projection\<close>

lemma xScale_formula:
  "lngMax r \<noteq> lngMin r \<Longrightarrow>
     xScale r lg = Num ((lg - lngMin r) / (lngMax r - lngMin r) * (850 - 2 * 30) + 30)"
  by (simp add: xScale_def mapWidth_def)

lemma yScale_formula:
  "latMax r \<noteq> latMin r \<Longrightarrow>
     yScale r la = Num (520 - 30 - (la - latMin r) / (latMax r - latMin r) * (520 - 2 * 30))"
  by (simp add: yScale_def mapHeight_def js_sub_def)

lemma xScale_degenerate:
  "lngMax r = lngMin r \<Longrightarrow>
     xScale r lg = (if lg = lngMin r then NaN else if lngMin r < lg then PInf else NInf)"
  by (simp add: xScale_def mapWidth_def)

lemma yScale_degenerate:
  "latMax r = latMin r \<Longrightarrow>
     yScale r la = (if la = latMin r then NaN else if latMin r < la then NInf else PInf)"
  by (simp add: yScale_def mapHeight_def js_sub_def)

lemma point_filteredGeoData:
  "map point (filteredGeoData r allData) = filter (inBounds r) allData"
  by (simp add: filteredGeoData_def comp_def)

text \<open>
  Claim C7. For a region whose box has a width and a height: every point of the active
  set with \<open>latMin \<le> lat \<le> latMax\<close> and \<open>lngMin \<le> lng \<le> lngMax\<close> is in the projected
  set with \<open>x = (lng - lngMin) / (lngMax - lngMin) \<times> (850 - 2 \<times> 30) + 30\<close> and
  \<open>y = 520 - 30 - (lat - latMin) / (latMax - latMin) \<times> (520 - 2 \<times> 30)\<close>; every point
  of the projected set is such a point with these coordinates; a point of the active
  set with a latitude or a longitude outside the box is not in the projected set at
  all; the projected set keeps the order of the active set; and the edges of the box
  map to the margins \<open>30\<close>, \<open>820\<close>, \<open>490\<close> and \<open>30\<close>.
\<close>

theorem projection_in_region:
  assumes w: "lngMax r \<noteq> lngMin r" and h: "latMax r \<noteq> latMin r"
  shows "(\<forall>d \<in> set allData.
            latMin r \<le> lat (rec d) \<and> lat (rec d) \<le> latMax r \<and>
            lngMin r \<le> lng (rec d) \<and> lng (rec d) \<le> lngMax r \<longrightarrow>
            \<lparr>point = d,
             x = Num ((lng (rec d) - lngMin r) / (lngMax r - lngMin r) * (850 - 2 * 30) + 30),
             y = Num (520 - 30 - (lat (rec d) - latMin r) / (latMax r - latMin r)
                        * (520 - 2 * 30))\<rparr>
              \<in> set (filteredGeoData r allData)) \<and>
         (\<forall>p \<in> set (filteredGeoData r allData).
            point p \<in> set allData \<and>
            latMin r \<le> lat (rec (point p)) \<and> lat (rec (point p)) \<le> latMax r \<and>
            lngMin r \<le> lng (rec (point p)) \<and> lng (rec (point p)) \<le> lngMax r \<and>
            x p = Num ((lng (rec (point p)) - lngMin r) / (lngMax r - lngMin r)
                         * (850 - 2 * 30) + 30) \<and>
            y p = Num (520 - 30 - (lat (rec (point p)) - latMin r) / (latMax r - latMin r)
                         * (520 - 2 * 30))) \<and>
         (\<forall>d \<in> set allData.
            (lat (rec d) < latMin r \<or> latMax r < lat (rec d) \<or>
             lng (rec d) < lngMin r \<or> lngMax r < lng (rec d)) \<longrightarrow>
            d \<notin> point ` set (filteredGeoData r allData)) \<and>
         map point (filteredGeoData r allData) =
           filter (\<lambda>d. latMin r \<le> lat (rec d) \<and> lat (rec d) \<le> latMax r \<and>
                        lngMin r \<le> lng (rec d) \<and> lng (rec d) \<le> lngMax r) allData \<and>
         xScale r (lngMin r) = Num 30 \<and> xScale r (lngMax r) = Num (850 - 30) \<and>
         yScale r (latMin r) = Num (520 - 30) \<and> yScale r (latMax r) = Num 30"
proof -
  have inc: "\<forall>d \<in> set allData.
      latMin r \<le> lat (rec d) \<and> lat (rec d) \<le> latMax r \<and>
      lngMin r \<le> lng (rec d) \<and> lng (rec d) \<le> lngMax r \<longrightarrow>
      \<lparr>point = d,
       x = Num ((lng (rec d) - lngMin r) / (lngMax r - lngMin r) * (850 - 2 * 30) + 30),
       y = Num (520 - 30 - (lat (rec d) - latMin r) / (latMax r - latMin r)
                  * (520 - 2 * 30))\<rparr>
        \<in> set (filteredGeoData r allData)"
    using xScale_formula [OF w] yScale_formula [OF h]
    by (auto simp: filteredGeoData_def inBounds_def image_iff)
  have pts: "\<forall>p \<in> set (filteredGeoData r allData).
      point p \<in> set allData \<and>
      latMin r \<le> lat (rec (point p)) \<and> lat (rec (point p)) \<le> latMax r \<and>
      lngMin r \<le> lng (rec (point p)) \<and> lng (rec (point p)) \<le> lngMax r \<and>
      x p = Num ((lng (rec (point p)) - lngMin r) / (lngMax r - lngMin r)
                   * (850 - 2 * 30) + 30) \<and>
      y p = Num (520 - 30 - (lat (rec (point p)) - latMin r) / (latMax r - latMin r)
                   * (520 - 2 * 30))"
    using xScale_formula [OF w] yScale_formula [OF h]
    by (auto simp: filteredGeoData_def inBounds_def)
  have out: "\<forall>d \<in> set allData.
      (lat (rec d) < latMin r \<or> latMax r < lat (rec d) \<or>
       lng (rec d) < lngMin r \<or> lngMax r < lng (rec d)) \<longrightarrow>
      d \<notin> point ` set (filteredGeoData r allData)"
    by (auto simp: filteredGeoData_def inBounds_def)
  have ord: "map point (filteredGeoData r allData) =
      filter (\<lambda>d. latMin r \<le> lat (rec d) \<and> lat (rec d) \<le> latMax r \<and>
                   lngMin r \<le> lng (rec d) \<and> lng (rec d) \<le> lngMax r) allData"
  proof -
    have "inBounds r = (\<lambda>d. latMin r \<le> lat (rec d) \<and> lat (rec d) \<le> latMax r \<and>
                              lngMin r \<le> lng (rec d) \<and> lng (rec d) \<le> lngMax r)"
      by (rule ext) (simp add: inBounds_def)
    then show ?thesis
      by (simp add: filteredGeoData_def comp_def)
  qed
  have edges: "xScale r (lngMin r) = Num 30 \<and> xScale r (lngMax r) = Num (850 - 30) \<and>
      yScale r (latMin r) = Num (520 - 30) \<and> yScale r (latMax r) = Num 30"
    using w h by (simp add: xScale_formula yScale_formula)
  show ?thesis
    using inc pts out ord edges by blast
qed

text \<open>
  The Cascade Natural Gas records of June 2025 in the Eastern Oregon region: of the
  eleven points of the active set, the four inside the box are projected, with the
  coordinates shown, and the seven west of \<open>lngMin = -120.10\<close> are left out.
\<close>

theorem projection_in_region_witness:
  "map (\<lambda>p. (zipCode (rec (point p)), lat (rec (point p)), lng (rec (point p)), x p, y p))
     (filteredGeoData
        \<lparr>latMin = 4195 / 100, latMax = 4605 / 100, lngMin = - 12010 / 100, lngMax = - 11685 / 100\<rparr>
        (allGeoData geoZipData ''cng'' ''jun'' ''arrears_count'')) =
   [(''97801'', 4567 / 100, - 11878 / 100, Num (22806 / 65), Num (2978 / 41)),
    (''97838'', 4583 / 100, - 11917 / 100, Num (16644 / 65), Num (2242 / 41)),
    (''97914'', 4405 / 100, - 11697 / 100, Num (51404 / 65), Num (10430 / 41)),
    (''97814'', 4478 / 100, - 11783 / 100, Num (37816 / 65), Num (7072 / 41))] \<and>
   map (\<lambda>d. (zipCode (rec d), lat (rec d), lng (rec d)))
     (filter (\<lambda>d. \<not> (4195 / 100 \<le> lat (rec d) \<and> lat (rec d) \<le> 4605 / 100 \<and>
                        - 12010 / 100 \<le> lng (rec d) \<and> lng (rec d) \<le> - 11685 / 100))
        (allGeoData geoZipData ''cng'' ''jun'' ''arrears_count'')) =
   [(''97702'', 4399 / 100, - 12135 / 100), (''97701'', 4406 / 100, - 12131 / 100),
    (''97756'', 4427 / 100, - 12117 / 100), (''97703'', 4412 / 100, - 12129 / 100),
    (''97754'', 4427 / 100, - 12090 / 100), (''97741'', 4459 / 100, - 12113 / 100),
    (''97707'', 4388 / 100, - 12150 / 100)] \<and>
   map (\<lambda>d. zipCode (rec d))
     (map point (filteredGeoData
        \<lparr>latMin = 4195 / 100, latMax = 4605 / 100, lngMin = - 12010 / 100, lngMax = - 11685 / 100\<rparr>
        (allGeoData geoZipData ''cng'' ''jun'' ''arrears_count''))) =
   [''97801'', ''97838'', ''97914'', ''97814''] \<and>
   xScale \<lparr>latMin = 4195 / 100, latMax = 4605 / 100, lngMin = - 12010 / 100, lngMax = - 11685 / 100\<rparr>
     (- 11685 / 100) = Num 820 \<and>
   yScale \<lparr>latMin = 4195 / 100, latMax = 4605 / 100, lngMin = - 12010 / 100, lngMax = - 11685 / 100\<rparr>
     (4605 / 100) = Num 30"
proof -
  let ?r = "\<lparr>latMin = 4195 / 100, latMax = 4605 / 100,
             lngMin = - 12010 / 100, lngMax = - 11685 / 100 :: rat\<rparr>"
  let ?all = "allGeoData geoZipData ''cng'' ''jun'' ''arrears_count''"
  have w: "lngMax ?r \<noteq> lngMin ?r" by simp
  have h: "latMax ?r \<noteq> latMin ?r" by simp
  have e: "map (\<lambda>p. (zipCode (rec (point p)), lat (rec (point p)), lng (rec (point p)), x p, y p))
             (filteredGeoData ?r ?all) =
     [(''97801'', 4567 / 100, - 11878 / 100, Num (22806 / 65), Num (2978 / 41)),
      (''97838'', 4583 / 100, - 11917 / 100, Num (16644 / 65), Num (2242 / 41)),
      (''97914'', 4405 / 100, - 11697 / 100, Num (51404 / 65), Num (10430 / 41)),
      (''97814'', 4478 / 100, - 11783 / 100, Num (37816 / 65), Num (7072 / 41))]"
    by code_simp
  have o: "map (\<lambda>d. (zipCode (rec d), lat (rec d), lng (rec d)))
     (filter (\<lambda>d. \<not> (4195 / 100 \<le> lat (rec d) \<and> lat (rec d) \<le> 4605 / 100 \<and>
                        - 12010 / 100 \<le> lng (rec d) \<and> lng (rec d) \<le> - 11685 / 100)) ?all) =
     [(''97702'', 4399 / 100, - 12135 / 100), (''97701'', 4406 / 100, - 12131 / 100),
      (''97756'', 4427 / 100, - 12117 / 100), (''97703'', 4412 / 100, - 12129 / 100),
      (''97754'', 4427 / 100, - 12090 / 100), (''97741'', 4459 / 100, - 12113 / 100),
      (''97707'', 4388 / 100, - 12150 / 100)]"
    by code_simp
  have k: "map (\<lambda>d. zipCode (rec d))
     (filter (\<lambda>d. latMin ?r \<le> lat (rec d) \<and> lat (rec d) \<le> latMax ?r \<and>
                   lngMin ?r \<le> lng (rec d) \<and> lng (rec d) \<le> lngMax ?r) ?all) =
     [''97801'', ''97838'', ''97914'', ''97814'']"
    by code_simp
  note t = projection_in_region [OF w h, of ?all]
  from t have ord: "map point (filteredGeoData ?r ?all) =
      filter (\<lambda>d. latMin ?r \<le> lat (rec d) \<and> lat (rec d) \<le> latMax ?r \<and>
                   lngMin ?r \<le> lng (rec d) \<and> lng (rec d) \<le> lngMax ?r) ?all"
    by blast
  from t have edges: "xScale ?r (lngMax ?r) = Num (850 - 30) \<and> yScale ?r (latMax ?r) = Num 30"
    by blast
  have kept: "map (\<lambda>d. zipCode (rec d)) (map point (filteredGeoData ?r ?all)) =
      [''97801'', ''97838'', ''97914'', ''97814'']"
    by (simp only: ord k)
  have x820: "xScale ?r (- 11685 / 100) = Num 820" and y30: "yScale ?r (4605 / 100) = Num 30"
    using edges by simp_all
  show ?thesis
    by (intro conjI e o kept x820 y30)
qed

lemma geoRegions_not_degenerate:
  "list_all (\<lambda>(k, r). latMin r < latMax r \<and> lngMin r < lngMax r) geoRegions"
  by (simp add: geoRegions_def)

text \<open>
  Claim C8, at a region whose box has collapsed to the point \<open>(45, -123)\<close>: both
  scales return the value \<open>NaN\<close> and a record at that point is projected to
  \<open>(NaN, NaN)\<close>; nothing is signalled.
\<close>

theorem degenerate_region_counterexample:
  "xScale \<lparr>latMin = 45, latMax = 45, lngMin = - 123, lngMax = - 123\<rparr> (- 123) = NaN \<and>
   yScale \<lparr>latMin = 45, latMax = 45, lngMin = - 123, lngMax = - 123\<rparr> 45 = NaN \<and>
   map (\<lambda>p. (x p, y p))
     (filteredGeoData \<lparr>latMin = 45, latMax = 45, lngMin = - 123, lngMax = - 123\<rparr>
        [\<lparr>rec = zipRecord ''97000'' 45 (- 123) (100, 10, 1) (100, 10, 1) (100, 10, 1),
          utility = ''pge'', value = 10\<rparr>]) = [(NaN, NaN)]"
  by (simp add: xScale_def yScale_def mapWidth_def mapHeight_def js_sub_def
      filteredGeoData_def inBounds_def zipRecord_def)

text \<open>
  Claim C8 as amended. The projector checks nothing and signals nothing: on a region
  of zero width the x scale is not a finite number (\<open>NaN\<close> on the box, infinite off
  it), and likewise the y scale on a region of zero height. No region of the catalogue
  is degenerate: each has \<open>latMin < latMax\<close> and \<open>lngMin < lngMax\<close>.
\<close>

theorem degenerate_region_not_finite:
  "(lngMax r = lngMin r \<longrightarrow>
      xScale r lg = (if lg = lngMin r then NaN else if lngMin r < lg then PInf else NInf) \<and>
      \<not> finite_num (xScale r lg)) \<and>
   (latMax r = latMin r \<longrightarrow>
      yScale r la = (if la = latMin r then NaN else if latMin r < la then NInf else PInf) \<and>
      \<not> finite_num (yScale r la)) \<and>
   list_all (\<lambda>(k, r). latMin r < latMax r \<and> lngMin r < lngMax r) geoRegions"
  using geoRegions_not_degenerate
  by (simp add: xScale_degenerate yScale_degenerate finite_num_def)

theorem degenerate_region_not_finite_witness:
  "lngMax \<lparr>latMin = 44, latMax = 44, lngMin = - 120, lngMax = - 120\<rparr> =
     lngMin \<lparr>latMin = 44, latMax = 44, lngMin = - 120, lngMax = - 120\<rparr> \<and>
   xScale \<lparr>latMin = 44, latMax = 44, lngMin = - 120, lngMax = - 120\<rparr> (- 119) = PInf \<and>
   yScale \<lparr>latMin = 44, latMax = 44, lngMin = - 120, lngMax = - 120\<rparr> 45 = NInf"
  using degenerate_region_not_finite
    [of "\<lparr>latMin = 44, latMax = 44, lngMin = - 120, lngMax = - 120\<rparr>" "- 119" 45]
  by simp

section \<open>Properties of the active geographic set\<close>

lemma set_allGeoData:
  "set (allGeoData zd u m k) = set (collectGeoData zd u m k)"
  by (simp add: allGeoData_def)

lemma activeOver20_iff:
  "activeOver20 m d \<longleftrightarrow> (\<exists>s. map_of (snaps d) m = Some s \<and> 20 < active s)"
  by (simp add: activeOver20_def split: option.splits)

lemma collectGeoData_iff:
  "p \<in> set (collectGeoData zd u m k) \<longleftrightarrow>
     (\<exists>uk \<in> set (utilKeys u). \<exists>ds. zd uk = Some ds \<and>
        (\<exists>d \<in> set ds. activeOver20 m d \<and>
           p = \<lparr>rec = d, utility = uk, value = getGeoMetricValue d m k\<rparr>))"
proof -
  have inner: "p \<in> set (case zd uk of None \<Rightarrow> []
                 | Some ds \<Rightarrow> map (\<lambda>d. \<lparr>rec = d, utility = uk, value = getGeoMetricValue d m k\<rparr>)
                                (filter (activeOver20 m) ds)) \<longleftrightarrow>
      (\<exists>ds. zd uk = Some ds \<and>
        (\<exists>d \<in> set ds. activeOver20 m d \<and>
           p = \<lparr>rec = d, utility = uk, value = getGeoMetricValue d m k\<rparr>))" for uk
    by (cases "zd uk") auto
  show ?thesis
    unfolding collectGeoData_def set_concat set_map using inner by blast
qed

lemma collectGeoData_gate:
  "p \<in> set (collectGeoData zd u m k) \<Longrightarrow> activeOver20 m (rec p)"
  by (auto simp: collectGeoData_iff)

lemma geographicView_Some:
  assumes "geographicView zd st = Some v"
  obtains bounds where
    "map_of geoRegions (geoRegion st) = Some bounds"
    "viewAll v = allGeoData zd (geoUtility st) (geoMonth st) (geoMetric st)"
    "viewFiltered v = filteredGeoData bounds (viewAll v)"
    "viewMin v = geoMinVal (geoValues (viewAll v))"
    "viewMax v = geoMaxVal (geoValues (viewAll v))"
    "viewRanking v =
       take 50 (if geoRegion st = ''statewide'' then viewAll v else map point (viewFiltered v))"
  using assms by (auto simp: geographicView_def Let_def split: option.splits)

lemma view_points_subset:
  assumes "geographicView zd st = Some v"
  shows "point ` set (viewFiltered v) \<subseteq> set (viewAll v)"
    and "set (viewRanking v) \<subseteq> set (viewAll v)"
proof -
  from assms obtain bounds where
    f: "viewFiltered v = filteredGeoData bounds (viewAll v)" and
    r: "viewRanking v =
       take 50 (if geoRegion st = ''statewide'' then viewAll v else map point (viewFiltered v))"
    by (rule geographicView_Some)
  have pf: "map point (viewFiltered v) = filter (inBounds bounds) (viewAll v)"
    by (simp add: f point_filteredGeoData)
  then have "set (map point (viewFiltered v)) \<subseteq> set (viewAll v)"
    by simp
  then show "point ` set (viewFiltered v) \<subseteq> set (viewAll v)"
    by simp
  show "set (viewRanking v) \<subseteq> set (viewAll v)"
  proof (cases "geoRegion st = ''statewide''")
    case True
    then show ?thesis using set_take_subset [of 50 "viewAll v"] by (simp add: r)
  next
    case False
    then have "set (viewRanking v) \<subseteq> set (filter (inBounds bounds) (viewAll v))"
      using set_take_subset [of 50 "filter (inBounds bounds) (viewAll v)"] by (simp add: r pf)
    then show ?thesis by auto
  qed
qed

text \<open>
  Claim C10. Every point of the active set, of the projected set and of the ranking is
  a record whose snapshot for the selected month exists and has more than 20 active
  accounts, and the colour range is computed from the active set. A record of a
  selected utility is in the active set exactly when it has such a snapshot: with no
  snapshot for the month, or with 20 accounts or fewer, it appears in no output.
\<close>

theorem active_account_gate:
  assumes "geographicView zd st = Some v"
  shows "(\<forall>p \<in> set (viewAll v) \<union> point ` set (viewFiltered v) \<union> set (viewRanking v).
            \<exists>s. map_of (snaps (rec p)) (geoMonth st) = Some s \<and> 20 < active s) \<and>
         viewMin v = geoMinVal (geoValues (viewAll v)) \<and>
         viewMax v = geoMaxVal (geoValues (viewAll v)) \<and>
         (\<forall>uk \<in> set (utilKeys (geoUtility st)). \<forall>ds. zd uk = Some ds \<longrightarrow>
            (\<forall>d \<in> set ds.
               (\<lparr>rec = d, utility = uk,
                 value = getGeoMetricValue d (geoMonth st) (geoMetric st)\<rparr> \<in> set (viewAll v)) =
               (\<exists>s. map_of (snaps d) (geoMonth st) = Some s \<and> 20 < active s)))"
proof -
  from assms obtain bounds where
    a: "viewAll v = allGeoData zd (geoUtility st) (geoMonth st) (geoMetric st)" and
    mn: "viewMin v = geoMinVal (geoValues (viewAll v))" and
    mx: "viewMax v = geoMaxVal (geoValues (viewAll v))"
    by (rule geographicView_Some)
  have sa: "set (viewAll v) = set (collectGeoData zd (geoUtility st) (geoMonth st) (geoMetric st))"
    by (simp add: a set_allGeoData)
  have sub: "set (viewAll v) \<union> point ` set (viewFiltered v) \<union> set (viewRanking v)
      \<subseteq> set (viewAll v)"
    using view_points_subset [OF assms] by blast
  have gate: "\<forall>p \<in> set (viewAll v). activeOver20 (geoMonth st) (rec p)"
    using collectGeoData_gate by (auto simp: sa)
  have one: "\<forall>p \<in> set (viewAll v) \<union> point ` set (viewFiltered v) \<union> set (viewRanking v).
      \<exists>s. map_of (snaps (rec p)) (geoMonth st) = Some s \<and> 20 < active s"
    using gate sub by (auto simp: activeOver20_iff)
  have two: "\<forall>uk \<in> set (utilKeys (geoUtility st)). \<forall>ds. zd uk = Some ds \<longrightarrow>
      (\<forall>d \<in> set ds.
         (\<lparr>rec = d, utility = uk,
           value = getGeoMetricValue d (geoMonth st) (geoMetric st)\<rparr> \<in> set (viewAll v)) =
         (\<exists>s. map_of (snaps d) (geoMonth st) = Some s \<and> 20 < active s))"
    unfolding sa collectGeoData_iff activeOver20_iff [symmetric] by auto
  show ?thesis
    using one mn mx two by blast
qed

text \<open>
  Three records of one utility in June: one with 21 active accounts, one with 20, one
  with a snapshot for April only. The first alone is in the active set.
\<close>

theorem active_account_gate_witness:
  "map_option (\<lambda>v. (map (\<lambda>p. zipCode (rec p)) (viewAll v),
                     map (\<lambda>p. zipCode (rec (point p))) (viewFiltered v),
                     map (\<lambda>p. zipCode (rec p)) (viewRanking v),
                     viewMin v = geoMinVal (geoValues (viewAll v))))
     (geographicView
        (map_of [(''pge'',
           [zipRecord ''97001'' 45 (- 122) (30, 5, 1) (30, 5, 1) (21, 5, 1),
            zipRecord ''97002'' 45 (- 122) (30, 5, 1) (30, 5, 1) (20, 5, 1),
            \<lparr>zipCode = ''97003'', lat = 45, lng = - 122,
             snaps = [(''apr'', \<lparr>active = 500, arrears = 50, disc = 5\<rparr>)]\<rparr>])])
        \<lparr>geoMonth = ''jun'', geoMetric = ''arrears_count'', geoUtility = ''pge'',
         geoRegion = ''statewide''\<rparr>) =
   Some ([''97001''], [''97001''], [''97001''], True)"
proof -
  let ?zd = "map_of [(''pge'',
           [zipRecord ''97001'' 45 (- 122) (30, 5, 1) (30, 5, 1) (21, 5, 1),
            zipRecord ''97002'' 45 (- 122) (30, 5, 1) (30, 5, 1) (20, 5, 1),
            \<lparr>zipCode = ''97003'', lat = 45, lng = - 122,
             snaps = [(''apr'', \<lparr>active = 500, arrears = 50, disc = 5\<rparr>)]\<rparr>])]"
  let ?st = "\<lparr>geoMonth = ''jun'', geoMetric = ''arrears_count'', geoUtility = ''pge'',
         geoRegion = ''statewide''\<rparr>"
  obtain v where v: "geographicView ?zd ?st = Some v"
    by (simp add: geographicView_def geoRegions_def Let_def)
  have e: "map_option (\<lambda>v. (map (\<lambda>p. zipCode (rec p)) (viewAll v),
                     map (\<lambda>p. zipCode (rec (point p))) (viewFiltered v),
                     map (\<lambda>p. zipCode (rec p)) (viewRanking v)))
             (geographicView ?zd ?st) = Some ([''97001''], [''97001''], [''97001''])"
    by code_simp
  show ?thesis
    unfolding v using active_account_gate [OF v] e [unfolded v] by simp
qed

section \<open>Properties of the ranking\<close>

lemma allGeoData_sorted:
  "sorted_wrt (\<lambda>a b. value b \<le> value a) (allGeoData zd u m k)"
proof -
  have "sorted (map (\<lambda>p. - value p) (allGeoData zd u m k))"
    by (simp add: allGeoData_def)
  then show ?thesis
    by (simp add: sorted_map)
qed

lemma allGeoData_stable:
  "filter (\<lambda>p. value p = q) (allGeoData zd u m k) =
   filter (\<lambda>p. value p = q) (collectGeoData zd u m k)"
proof -
  have "filter (\<lambda>p. - value p = - q) (allGeoData zd u m k) =
        filter (\<lambda>p. - value p = - q) (collectGeoData zd u m k)"
    unfolding allGeoData_def by (rule sort_key_stable)
  then show ?thesis by simp
qed

text \<open>
  Claim C4, on the Pacific Power records of June 2025 ranked by disconnections: the
  ZIP codes 97217 and 97103 both have the value 41 and keep the order of the data,
  97217 first, so the ranking is not in the order the claim states.
\<close>

theorem ranking_ties_counterexample:
  "map_option (\<lambda>v. (sorted_wrt rankedBefore (viewRanking v),
                     map (\<lambda>p. (zipCode (rec p), value p)) (take 2 (drop 17 (viewRanking v)))))
     (geographicView geoZipData
        \<lparr>geoMonth = ''jun'', geoMetric = ''disconnections'', geoUtility = ''pac'',
         geoRegion = ''statewide''\<rparr>) =
   Some (False, [(''97217'', 41), (''97103'', 41)])"
  by code_simp

text \<open>
  Claim C4 as amended. The ranking is sorted by value alone, the larger first; points
  of equal value stay in the order in which they were collected (utility by utility,
  each in the order of its data), the ZIP code playing no part. The ranking is the
  first fifty of the active set statewide, and of the points in the region otherwise,
  which keep the order of the active set; the active set and the projected set of the
  view are not changed by it.
\<close>

theorem ranking_order:
  assumes "geographicView zd st = Some v"
  shows "sorted_wrt (\<lambda>a b. value b \<le> value a) (viewRanking v) \<and>
         sorted_wrt (\<lambda>a b. value b \<le> value a) (viewAll v) \<and>
         (\<forall>q. filter (\<lambda>p. value p = q) (viewAll v) =
               filter (\<lambda>p. value p = q)
                 (collectGeoData zd (geoUtility st) (geoMonth st) (geoMetric st))) \<and>
         (\<exists>bounds. map_of geoRegions (geoRegion st) = Some bounds \<and>
            map point (viewFiltered v) = filter (inBounds bounds) (viewAll v)) \<and>
         viewRanking v =
           take 50 (if geoRegion st = ''statewide'' then viewAll v
                    else map point (viewFiltered v)) \<and>
         viewAll v = allGeoData zd (geoUtility st) (geoMonth st) (geoMetric st)"
proof -
  from assms obtain bounds where
    b: "map_of geoRegions (geoRegion st) = Some bounds" and
    a: "viewAll v = allGeoData zd (geoUtility st) (geoMonth st) (geoMetric st)" and
    f: "viewFiltered v = filteredGeoData bounds (viewAll v)" and
    r: "viewRanking v =
       take 50 (if geoRegion st = ''statewide'' then viewAll v else map point (viewFiltered v))"
    by (rule geographicView_Some)
  have pf: "map point (viewFiltered v) = filter (inBounds bounds) (viewAll v)"
    by (simp add: f point_filteredGeoData)
  have sa: "sorted_wrt (\<lambda>a b. value b \<le> value a) (viewAll v)"
    by (simp add: a allGeoData_sorted)
  then have sf: "sorted_wrt (\<lambda>a b. value b \<le> value a) (map point (viewFiltered v))"
    by (simp add: pf sorted_wrt_filter)
  have sr: "sorted_wrt (\<lambda>a b. value b \<le> value a) (viewRanking v)"
    using sa sf by (simp add: r sorted_wrt_take)
  have st: "\<forall>q. filter (\<lambda>p. value p = q) (viewAll v) =
      filter (\<lambda>p. value p = q) (collectGeoData zd (geoUtility st) (geoMonth st) (geoMetric st))"
    by (simp add: a allGeoData_stable)
  show ?thesis
    using sr sa st b pf r a by blast
qed

theorem ranking_order_witness:
  "map_option (\<lambda>v. (sorted_wrt (\<lambda>a b. value b \<le> value a) (viewRanking v),
                     map (\<lambda>p. (zipCode (rec p), value p)) (viewRanking v)))
     (geographicView geoZipData
        \<lparr>geoMonth = ''jun'', geoMetric = ''disconnections'', geoUtility = ''ipco'',
         geoRegion = ''eastern''\<rparr>) =
   Some (True, [(''97914'', 35), (''97918'', 10), (''97913'', 7), (''97907'', 2),
                (''97870'', 1), (''97901'', 1), (''97834'', 0), (''97910'', 0)])"
proof -
  let ?st = "\<lparr>geoMonth = ''jun'', geoMetric = ''disconnections'', geoUtility = ''ipco'',
         geoRegion = ''eastern''\<rparr>"
  obtain v where v: "geographicView geoZipData ?st = Some v"
    by (simp add: geographicView_def geoRegions_def Let_def)
  have e: "map_option (\<lambda>v. map (\<lambda>p. (zipCode (rec p), value p)) (viewRanking v))
             (geographicView geoZipData ?st) =
           Some [(''97914'', 35), (''97918'', 10), (''97913'', 7), (''97907'', 2),
                 (''97870'', 1), (''97901'', 1), (''97834'', 0), (''97910'', 0)]"
    by code_simp
  from ranking_order [OF v]
  have s: "sorted_wrt (\<lambda>a b. value b \<le> value a) (viewRanking v)"
    by (rule conjunct1)
  show ?thesis
    unfolding v using s e [unfolded v] by simp
qed

section \<open>Properties of the colour scale\<close>

lemma geoMinVal_Min: "vs \<noteq> [] \<Longrightarrow> geoMinVal vs = Min (set vs)"
  by (cases vs) (simp_all add: geoMinVal_def Min.set_eq_fold [symmetric])

lemma geoMaxVal_Max: "vs \<noteq> [] \<Longrightarrow> geoMaxVal vs = Max (set vs)"
  by (cases vs) (simp_all add: geoMaxVal_def Max.set_eq_fold [symmetric])

lemma set_geoValues: "set (geoValues allData) = {q \<in> value ` set allData. 0 < q}"
  by (auto simp: geoValues_def)

lemma geoMinVal_geoValues:
  "geoMinVal (geoValues allData) =
     (if {q \<in> value ` set allData. 0 < q} = {} then 0
      else Min {q \<in> value ` set allData. 0 < q})"
proof (cases "geoValues allData = []")
  case True
  then have "set (geoValues allData) = {}" by simp
  then have "{q \<in> value ` set allData. 0 < q} = {}" by (simp add: set_geoValues)
  then show ?thesis using True by (simp add: geoMinVal_def)
next
  case False
  then have "set (geoValues allData) \<noteq> {}" by simp
  then have ne: "{q \<in> value ` set allData. 0 < q} \<noteq> {}" by (simp add: set_geoValues)
  have "geoMinVal (geoValues allData) = Min {q \<in> value ` set allData. 0 < q}"
    using geoMinVal_Min [OF False] by (simp only: set_geoValues)
  then show ?thesis by (simp only: ne if_False)
qed

lemma geoMaxVal_geoValues:
  "geoMaxVal (geoValues allData) =
     (if {q \<in> value ` set allData. 0 < q} = {} then 1
      else Max {q \<in> value ` set allData. 0 < q})"
proof (cases "geoValues allData = []")
  case True
  then have "set (geoValues allData) = {}" by simp
  then have "{q \<in> value ` set allData. 0 < q} = {}" by (simp add: set_geoValues)
  then show ?thesis using True by (simp add: geoMaxVal_def)
next
  case False
  then have "set (geoValues allData) \<noteq> {}" by simp
  then have ne: "{q \<in> value ` set allData. 0 < q} \<noteq> {}" by (simp add: set_geoValues)
  have "geoMaxVal (geoValues allData) = Max {q \<in> value ` set allData. 0 < q}"
    using geoMaxVal_Max [OF False] by (simp only: set_geoValues)
  then show ?thesis by (simp only: ne if_False)
qed

lemma positive_value_in_range:
  assumes "p \<in> set allData" and "0 < value p"
  shows "geoMinVal (geoValues allData) \<le> value p \<and> value p \<le> geoMaxVal (geoValues allData)"
proof -
  have m: "value p \<in> set (geoValues allData)"
    using assms by (auto simp: set_geoValues)
  then have ne: "geoValues allData \<noteq> []" by auto
  show ?thesis
    using m by (simp add: geoMinVal_Min [OF ne] geoMaxVal_Max [OF ne])
qed

lemma geoT_unit: "mn \<le> q \<Longrightarrow> q \<le> mx \<Longrightarrow> 0 \<le> geoT mn mx q \<and> geoT mn mx q \<le> 1"
  by (simp add: geoT_def divide_le_eq_1_pos)

lemma geoT_below: "mn < mx \<Longrightarrow> q < mn \<Longrightarrow> geoT mn mx q < 0"
  by (simp add: geoT_def divide_neg_pos)

text \<open>
  Claim C5, on the Cascade Natural Gas records of June 2025 by accounts in arrears.
  In the Eastern Oregon region four points are visible, with values from 314 to 536;
  the points with the extreme values 110 and 798 lie outside the region. The range in
  force is 110 to 798 all the same, as it is statewide.
\<close>

theorem color_range_region_counterexample:
  "map_option (\<lambda>v. (viewMin v, viewMax v, geoMinVal (visibleValues v), geoMaxVal (visibleValues v)))
     (geographicView geoZipData
        \<lparr>geoMonth = ''jun'', geoMetric = ''arrears_count'', geoUtility = ''cng'',
         geoRegion = ''eastern''\<rparr>) = Some (110, 798, 314, 536) \<and>
   map_option (\<lambda>v. (viewMin v, viewMax v))
     (geographicView geoZipData
        \<lparr>geoMonth = ''jun'', geoMetric = ''arrears_count'', geoUtility = ''cng'',
         geoRegion = ''statewide''\<rparr>) = Some (110, 798)"
  by code_simp

text \<open>
  Claim C5 as amended. The minimum and the maximum of the colour scale are taken over
  the positive metric values of the active set, which is what remains after the
  utility and month selection and the account threshold, before the region filter
  (0 and 1 when there is no positive value). For a fixed utility, month and metric,
  changing the region changes neither.
\<close>

theorem color_range_before_region_filter:
  assumes "geographicView zd st = Some v"
    and "geographicView zd (st\<lparr>geoRegion := r\<rparr>) = Some v'"
  shows "viewMin v' = viewMin v \<and> viewMax v' = viewMax v \<and> viewAll v' = viewAll v \<and>
         viewMin v = (if {q \<in> value ` set (viewAll v). 0 < q} = {} then 0
                      else Min {q \<in> value ` set (viewAll v). 0 < q}) \<and>
         viewMax v = (if {q \<in> value ` set (viewAll v). 0 < q} = {} then 1
                      else Max {q \<in> value ` set (viewAll v). 0 < q}) \<and>
         viewAll v = allGeoData zd (geoUtility st) (geoMonth st) (geoMetric st)"
proof -
  from assms(1) obtain b where
    a: "viewAll v = allGeoData zd (geoUtility st) (geoMonth st) (geoMetric st)" and
    mn: "viewMin v = geoMinVal (geoValues (viewAll v))" and
    mx: "viewMax v = geoMaxVal (geoValues (viewAll v))"
    by (rule geographicView_Some)
  from assms(2) obtain b' where
    a': "viewAll v' = allGeoData zd (geoUtility (st\<lparr>geoRegion := r\<rparr>))
           (geoMonth (st\<lparr>geoRegion := r\<rparr>)) (geoMetric (st\<lparr>geoRegion := r\<rparr>))" and
    mn': "viewMin v' = geoMinVal (geoValues (viewAll v'))" and
    mx': "viewMax v' = geoMaxVal (geoValues (viewAll v'))"
    by (rule geographicView_Some)
  have same: "viewAll v' = viewAll v"
    using a a' by simp
  show ?thesis
    using same a mn mx mn' mx' geoMinVal_geoValues [of "viewAll v"]
      geoMaxVal_geoValues [of "viewAll v"]
    by simp
qed

theorem color_range_before_region_filter_witness:
  "map_option (\<lambda>v. (viewMin v, viewMax v))
     (geographicView geoZipData
        \<lparr>geoMonth = ''jun'', geoMetric = ''disconnections'', geoUtility = ''ipco'',
         geoRegion = ''portland''\<rparr>) =
   map_option (\<lambda>v. (viewMin v, viewMax v))
     (geographicView geoZipData
        \<lparr>geoMonth = ''jun'', geoMetric = ''disconnections'', geoUtility = ''ipco'',
         geoRegion = ''statewide''\<rparr>)"
proof -
  let ?st = "\<lparr>geoMonth = ''jun'', geoMetric = ''disconnections'', geoUtility = ''ipco'',
         geoRegion = ''statewide''\<rparr>"
  let ?st' = "\<lparr>geoMonth = ''jun'', geoMetric = ''disconnections'', geoUtility = ''ipco'',
         geoRegion = ''portland''\<rparr>"
  obtain v where v: "geographicView geoZipData ?st = Some v"
    by (simp add: geographicView_def geoRegions_def Let_def)
  obtain v' where v': "geographicView geoZipData ?st' = Some v'"
    by (simp add: geographicView_def geoRegions_def Let_def)
  have u: "geographicView geoZipData (?st\<lparr>geoRegion := ''portland''\<rparr>) = Some v'"
    using v' by simp
  show ?thesis
    unfolding v v' using color_range_before_region_filter [OF v u] by simp
qed

text \<open>
  Claim C6, on the Idaho Power records of June 2025 by disconnections, where the
  range is 1 to 35: the two ZIP codes with no disconnection have \<open>t = -1/34\<close>, below
  the interval, and a lightness above 82.
\<close>

theorem color_clamp_counterexample:
  "map_option (\<lambda>v. map (\<lambda>p. (value (point p),
                               geoT (viewMin v) (viewMax v) (value (point p)),
                               getGeoColor (viewMin v) (viewMax v) (value (point p))
                                 (utility (point p))))
                       (drop 6 (viewFiltered v)))
     (geographicView geoZipData
        \<lparr>geoMonth = ''jun'', geoMetric = ''disconnections'', geoUtility = ''ipco'',
         geoRegion = ''eastern''\<rparr>) =
   Some [(0, - 1 / 34, 188, 85, 1415 / 17), (0, - 1 / 34, 188, 85, 1415 / 17)]"
  by code_simp

text \<open>
  Claim C6 as amended. The parameter is \<open>t = (value - min) / (max - min)\<close> when
  \<open>min < max\<close> and \<open>0\<close> otherwise, with no clamp. For every point of the active set
  with a positive value it lies in \<open>[0, 1]\<close>; for a value below \<open>min\<close> (a value of
  \<open>0\<close> when \<open>min\<close> is positive) it is negative, and the lightness \<open>82 - 42 t\<close> is
  above 82; when \<open>max = min\<close> it is \<open>0\<close> for every value, with no division.
\<close>

theorem color_parameter_range:
  assumes "geographicView zd st = Some v"
  shows "(\<forall>p \<in> set (viewAll v) \<union> point ` set (viewFiltered v).
            0 < value p \<longrightarrow>
              0 \<le> geoT (viewMin v) (viewMax v) (value p) \<and>
              geoT (viewMin v) (viewMax v) (value p) \<le> 1) \<and>
         (\<forall>q. geoT (viewMin v) (viewMax v) q =
               (if viewMin v < viewMax v then (q - viewMin v) / (viewMax v - viewMin v) else 0)) \<and>
         (\<forall>q. viewMin v < viewMax v \<longrightarrow> q < viewMin v \<longrightarrow>
               geoT (viewMin v) (viewMax v) q < 0) \<and>
         (\<forall>q. viewMax v = viewMin v \<longrightarrow> geoT (viewMin v) (viewMax v) q = 0) \<and>
         (\<forall>q u. snd (snd (getGeoColor (viewMin v) (viewMax v) q u)) =
                 82 - geoT (viewMin v) (viewMax v) q * 42)"
proof -
  from assms obtain b where
    mn: "viewMin v = geoMinVal (geoValues (viewAll v))" and
    mx: "viewMax v = geoMaxVal (geoValues (viewAll v))"
    by (rule geographicView_Some)
  have sub: "point ` set (viewFiltered v) \<subseteq> set (viewAll v)"
    using view_points_subset [OF assms] by blast
  have one: "\<forall>p \<in> set (viewAll v) \<union> point ` set (viewFiltered v).
      0 < value p \<longrightarrow>
        0 \<le> geoT (viewMin v) (viewMax v) (value p) \<and>
        geoT (viewMin v) (viewMax v) (value p) \<le> 1"
  proof (intro ballI impI)
    fix p
    assume "p \<in> set (viewAll v) \<union> point ` set (viewFiltered v)" and pos: "0 < value p"
    then have "p \<in> set (viewAll v)" using sub by blast
    then have "viewMin v \<le> value p \<and> value p \<le> viewMax v"
      using positive_value_in_range [OF _ pos] by (simp add: mn mx)
    then show "0 \<le> geoT (viewMin v) (viewMax v) (value p) \<and>
        geoT (viewMin v) (viewMax v) (value p) \<le> 1"
      using geoT_unit by blast
  qed
  have two: "\<forall>q. geoT (viewMin v) (viewMax v) q =
      (if viewMin v < viewMax v then (q - viewMin v) / (viewMax v - viewMin v) else 0)"
    by (simp add: geoT_def)
  have three: "\<forall>q. viewMin v < viewMax v \<longrightarrow> q < viewMin v \<longrightarrow>
      geoT (viewMin v) (viewMax v) q < 0"
    using geoT_below by blast
  have four: "\<forall>q. viewMax v = viewMin v \<longrightarrow> geoT (viewMin v) (viewMax v) q = 0"
    by (simp add: geoT_def)
  have five: "\<forall>q u. snd (snd (getGeoColor (viewMin v) (viewMax v) q u)) =
      82 - geoT (viewMin v) (viewMax v) q * 42"
    by (simp add: getGeoColor_def Let_def)
  show ?thesis
    using one two three four five by blast
qed

theorem color_parameter_range_witness:
  "map_option (\<lambda>v. (viewMin v, viewMax v,
                     list_all (\<lambda>p. 0 \<le> geoT (viewMin v) (viewMax v) (value p) \<and>
                                    geoT (viewMin v) (viewMax v) (value p) \<le> 1) (viewAll v),
                     geoT (viewMin v) (viewMax v) 0 < 0))
     (geographicView geoZipData
        \<lparr>geoMonth = ''jun'', geoMetric = ''arrears_count'', geoUtility = ''ipco'',
         geoRegion = ''eastern''\<rparr>) =
   Some (27, 1110, True, True)"
proof -
  let ?st = "\<lparr>geoMonth = ''jun'', geoMetric = ''arrears_count'', geoUtility = ''ipco'',
         geoRegion = ''eastern''\<rparr>"
  obtain v where v: "geographicView geoZipData ?st = Some v"
    by (simp add: geographicView_def geoRegions_def Let_def)
  have e: "map_option (\<lambda>v. (viewMin v, viewMax v, list_all (\<lambda>p. 0 < value p) (viewAll v)))
             (geographicView geoZipData ?st) = Some (27, 1110, True)"
    by code_simp
  have mn: "viewMin v = 27" and mx: "viewMax v = 1110"
    and pos: "\<forall>p \<in> set (viewAll v). 0 < value p"
    using e [unfolded v] by (simp_all add: list_all_iff)
  from color_parameter_range [OF v]
  have unit: "\<forall>p \<in> set (viewAll v) \<union> point ` set (viewFiltered v).
      0 < value p \<longrightarrow>
        0 \<le> geoT (viewMin v) (viewMax v) (value p) \<and>
        geoT (viewMin v) (viewMax v) (value p) \<le> 1"
    and below: "\<forall>q. viewMin v < viewMax v \<longrightarrow> q < viewMin v \<longrightarrow>
      geoT (viewMin v) (viewMax v) q < 0"
    by blast+
  have a: "list_all (\<lambda>p. 0 \<le> geoT (viewMin v) (viewMax v) (value p) \<and>
      geoT (viewMin v) (viewMax v) (value p) \<le> 1) (viewAll v)"
    unfolding list_all_iff using unit pos by blast
  have b: "geoT (viewMin v) (viewMax v) 0 < 0"
    using below by (simp add: mn mx)
  show ?thesis
    unfolding v using a b mn mx by simp
qed

end
